theory Spec2Isabelle
  imports Main "HOL-Library.Word"
begin

unbundle bit_operations_syntax

section \<open>The capture stream of the audio HAL (audio/2.0/default/StreamIn.cpp)\<close>

text \<open>
  The file has two parts: the capture thread (\<open>ReadThread\<close>, lines 36-111), which
  moves bytes from the device into a message queue, and the stream controller
  (\<open>StreamIn\<close>, lines 115-341), which sets a session up and tears it down.
  Both are modelled by explicit state passing. A call of the source that leaves the
  file (a queue, the event flag, the device, the thread library) appends an entry to a
  trace, so that the order of the calls can be stated; what such a call answers is an
  input of the model.
\<close>

subsection \<open>Types of the HAL interface\<close>

text \<open>
  The enumerations \<open>Result\<close> and \<open>ThreadPriority\<close> and the struct
  \<open>IStreamIn::ReadStatus\<close> are declared in the interface description, outside this
  file. \<open>Result\<close> lists the values this file names (\<open>OK\<close>, \<open>INVALID_STATE\<close>,
  \<open>INVALID_ARGUMENTS\<close>, \<open>NOT_SUPPORTED\<close>) and \<open>NOT_INITIALIZED\<close>, which only
  \<open>analyzeStatus\<close> can produce.
\<close>

datatype Result = OK | NOT_INITIALIZED | INVALID_ARGUMENTS | INVALID_STATE | NOT_SUPPORTED

datatype ThreadPriority = NORMAL | URGENT_AUDIO

type_synonym byte = "8 word"

type_synonym status_t = int

text \<open>The \<open>status_t\<close> value the source writes \<open>OK\<close> (lines 77, 293, 309).\<close>

definition status_OK :: status_t where
  "status_OK = 0"

text \<open>\<open>IStreamIn::ReadStatus status = { retval, read }\<close> (line 103); \<open>read\<close> is a \<open>uint64_t\<close>.\<close>

record ReadStatus =
  retval :: Result
  read :: "64 word"

text \<open>
  What the file uses and does not define is a parameter of the model: the two bits of
  \<open>MessageQueueFlagBits\<close>, the constant \<open>NS_PER_SEC\<close>, and
  \<open>Stream::analyzeStatus\<close>, which maps a status of the device to a \<open>Result\<close>.
  The field \<open>analyzeStatus\<close> stands for the call as line 101 writes it, its name
  argument first, the \<open>ssize_t\<close> result of the read second.
\<close>

record platform =
  NOT_EMPTY :: "32 word"
  NOT_FULL :: "32 word"
  NS_PER_SEC :: nat
  analyzeStatus :: "string \<Rightarrow> int \<Rightarrow> Result"

subsection \<open>Message queues and the event flag\<close>

text \<open>
  Modelled from the spec: the message queue (\<open>DataMQ\<close>, \<open>StatusMQ\<close>) is a library
  type, not code of this file. The spec gives it a fixed capacity, a query
  \<open>availableToWrite\<close> for the free capacity, and a non-blocking \<open>write\<close> (here \<open>mq_write\<close>) that
  "fails (returns false, does not partially write) if length exceeds current capacity".
  As in the source, \<open>mq_write q buf n\<close> writes the first \<open>n\<close> elements at \<open>buf\<close>.
  The consumer, the only reader, removes elements from the front.
\<close>

record 'a MessageQueue =
  quantumCount :: nat
  contents :: "'a list"
  isValid :: bool

definition availableToWrite :: "'a MessageQueue \<Rightarrow> nat" where
  "availableToWrite q = quantumCount q - length (contents q)"

definition mq_write :: "'a MessageQueue \<Rightarrow> 'a list \<Rightarrow> nat \<Rightarrow> bool \<times> 'a MessageQueue" where
  "mq_write q buf n =
     (if n \<le> availableToWrite q
      then (True, q\<lparr>contents := contents q @ take n buf\<rparr>)
      else (False, q))"

definition consumer_read :: "nat \<Rightarrow> 'a MessageQueue \<Rightarrow> 'a MessageQueue" where
  "consumer_read k q = q\<lparr>contents := drop k (contents q)\<rparr>"

text \<open>
  Modelled from the spec: the event flag is a library type over a shared 32-bit word.
  \<open>wait\<close> "returns the bits observed (may be a spurious/timeout return with none of
  mask set)" and a successful wait clears the bits it consumed; \<open>wake\<close> "atomically
  OR's mask into the shared word". The first argument of \<open>wait\<close> is the mask, the
  second the value of the shared word at the moment the wait returns (after whatever the
  other side posted, or unchanged on a timeout). It yields \<open>efState\<close> and the word left
  behind.
\<close>

definition wait :: "32 word \<Rightarrow> 32 word \<Rightarrow> 32 word \<times> 32 word" where
  "wait bits w = (w AND bits, w AND NOT bits)"

definition wake :: "32 word \<Rightarrow> 32 word \<Rightarrow> 32 word" where
  "wake bits w = w OR bits"

subsection \<open>The capture thread\<close>

text \<open>The calls of the thread that leave the file, with their arguments and answers.\<close>

datatype action =
    RequestPriority ThreadPriority
  | Wait "32 word" nat
  | AvailableToWrite nat
  | DeviceRead nat
  | DataWrite "byte list" bool
  | StatusWrite ReadStatus bool
  | Wake "32 word"

text \<open>
  The members of \<open>ReadThread\<close> (lines 59-65). A pointer member is modelled by the
  current value of what it points to: \<open>mStop\<close> is the stop flag of the stream,
  \<open>mDataMQ\<close> and \<open>mStatusMQ\<close> the two queues, \<open>mEfGroup\<close> the shared event-flag word.
  \<open>mStream\<close>, the device, is an input of each iteration. \<open>trace\<close> records the calls
  in order, \<open>warnings\<close> the \<open>ALOGW\<close> lines.
\<close>

record ReadThread =
  mStop :: bool
  mDataMQ :: "byte MessageQueue"
  mStatusMQ :: "ReadStatus MessageQueue"
  mEfGroup :: "32 word"
  mThreadPriority :: ThreadPriority
  mBuffer :: "byte list"
  trace :: "action list"
  warnings :: "string list"

text \<open>
  What the other parties do during one iteration of the loop. The thread blocks in two
  places, the wait of line 86 and the device read of line 92; the controller may store
  the stop flag and the consumer may read from the queues at either. A consumer read or
  a store that falls between two other lines of the body is observed by the thread
  exactly as if it had happened during the read.

  \<open>stop_in_wait\<close> and \<open>stop_after_wait\<close> say whether the controller stored the stop
  flag during the wait, or later in the iteration; the four \<open>..._read_in_...\<close> fields
  count what the consumer took out of each queue at each of the two places;
  \<open>ef_word\<close> is the shared event-flag word at the moment the wait returns;
  \<open>rd_result\<close> is the \<open>ssize_t\<close> the device read returns and \<open>rd_bytes\<close> the bytes
  it stored in the buffer.
\<close>

record env_step =
  stop_in_wait :: bool
  data_read_in_wait :: nat
  status_read_in_wait :: nat
  ef_word :: "32 word"
  rd_result :: int
  rd_bytes :: "byte list"
  data_read_in_read :: nat
  status_read_in_read :: nat
  stop_after_wait :: bool

definition others :: "bool \<Rightarrow> nat \<Rightarrow> nat \<Rightarrow> ReadThread \<Rightarrow> ReadThread" where
  "others stop k m t =
     t\<lparr>mStop := mStop t \<or> stop,
       mDataMQ := consumer_read k (mDataMQ t),
       mStatusMQ := consumer_read m (mStatusMQ t)\<rparr>"

text \<open>
  The device stores the bytes it read at the start of the buffer. The buffer keeps its
  length: the model does not follow a device that writes past the end.
\<close>

definition store_bytes :: "byte list \<Rightarrow> byte list \<Rightarrow> byte list" where
  "store_bytes bs buf = take (length buf) (bs @ drop (length bs) buf)"

text \<open>\<open>ReadThread::readyToRun\<close> (lines 70-78); \<open>err\<close> is what \<open>requestPriority\<close> answers.\<close>

definition readyToRun :: "ReadThread \<Rightarrow> int \<Rightarrow> status_t \<times> ReadThread" where
  "readyToRun t err =
     (if mThreadPriority t \<noteq> NORMAL
      then (status_OK,
            t\<lparr>trace := trace t @ [RequestPriority (mThreadPriority t)],
              warnings := warnings t @
                (if err \<noteq> 0 then [''failed to set priority %d for pid %d tid %d; error %d'']
                 else [])\<rparr>)
      else (status_OK, t))"

text \<open>
  The body of the \<open>while\<close> loop of \<open>threadLoop\<close> (lines 85-107), in the four
  steps of the source.

  Lines 85-86: the wait. What the other parties did while the thread was blocked is
  applied first; the result is \<open>efState\<close> and the thread after the call.
\<close>

definition wait_step :: "platform \<Rightarrow> ReadThread \<Rightarrow> env_step \<Rightarrow> 32 word \<times> ReadThread" where
  "wait_step P t e =
     (let t0 = others (stop_in_wait e) (data_read_in_wait e) (status_read_in_wait e) t;
          (efState, w) = wait (NOT_FULL P) (ef_word e)
      in (efState,
          t0\<lparr>mEfGroup := w, trace := trace t0 @ [Wait (NOT_FULL P) (NS_PER_SEC P)]\<rparr>))"

text \<open>
  Lines 91-92: the query of the free space and the blocking read of that many bytes.
  The result is \<open>readResult\<close> and the thread when the read returns.
\<close>

definition read_step :: "ReadThread \<Rightarrow> env_step \<Rightarrow> int \<times> ReadThread" where
  "read_step t e =
     (let availToWrite = availableToWrite (mDataMQ t)
      in (rd_result e,
          others (stop_after_wait e) (data_read_in_read e) (status_read_in_read e)
            (t\<lparr>mBuffer := store_bytes (rd_bytes e) (mBuffer t),
               trace := trace t @ [AvailableToWrite availToWrite, DeviceRead availToWrite]\<rparr>)))"

text \<open>
  Lines 93-102: the locals \<open>retval\<close> and \<open>read\<close> (here \<open>retval0\<close> and
  \<open>read0\<close>, the plain names being the fields of \<open>ReadStatus\<close>), and the write to
  the data queue when the read succeeded.
\<close>

definition data_step :: "platform \<Rightarrow> ReadThread \<Rightarrow> int \<Rightarrow> Result \<times> 64 word \<times> ReadThread" where
  "data_step P t readResult =
     (if 0 \<le> readResult
      then
        let (ok, q) = mq_write (mDataMQ t) (mBuffer t) (nat readResult)
        in (OK, word_of_int readResult,
            t\<lparr>mDataMQ := q,
              trace := trace t @ [DataWrite (take (nat readResult) (mBuffer t)) ok],
              warnings := warnings t @
                (if \<not> ok then [''data message queue write failed''] else [])\<rparr>)
      else (analyzeStatus P ''read'' readResult, 0, t))"

text \<open>Lines 103-107: the status record, its write to the status queue, and the wake.\<close>

definition status_step :: "platform \<Rightarrow> ReadThread \<Rightarrow> Result \<Rightarrow> 64 word \<Rightarrow> ReadThread" where
  "status_step P t retval0 read0 =
     (let status = \<lparr>retval = retval0, read = read0\<rparr>;
          (ok, q) = mq_write (mStatusMQ t) [status] 1
      in t\<lparr>mStatusMQ := q,
           mEfGroup := wake (NOT_EMPTY P) (mEfGroup t),
           trace := trace t @ [StatusWrite status ok, Wake (NOT_EMPTY P)],
           warnings := warnings t @
             (if \<not> ok then [''status message queue write failed''] else [])\<rparr>)"

text \<open>The whole body; the first branch is the \<open>continue\<close> of line 88.\<close>

definition iteration :: "platform \<Rightarrow> ReadThread \<Rightarrow> env_step \<Rightarrow> ReadThread" where
  "iteration P t e =
     (let (efState, t1) = wait_step P t e
      in if efState AND NOT_FULL P = 0 then t1
         else
           let (readResult, t2) = read_step t1 e;
               (retval0, read0, t3) = data_step P t2 readResult
           in status_step P t3 retval0 read0)"

text \<open>
  The queues as one iteration finds them: the data queue when line 91 queries it, the
  data queue when line 97 writes to it, and the status queue when line 104 writes to
  it. Between the query and the write lies the blocking read, during which the consumer
  may have taken more out.
\<close>

definition dataMQ_at_query :: "env_step \<Rightarrow> ReadThread \<Rightarrow> byte MessageQueue" where
  "dataMQ_at_query e t = consumer_read (data_read_in_wait e) (mDataMQ t)"

definition dataMQ_at_write :: "env_step \<Rightarrow> ReadThread \<Rightarrow> byte MessageQueue" where
  "dataMQ_at_write e t = consumer_read (data_read_in_read e) (dataMQ_at_query e t)"

definition statusMQ_at_write :: "env_step \<Rightarrow> ReadThread \<Rightarrow> ReadStatus MessageQueue" where
  "statusMQ_at_write e t =
     consumer_read (status_read_in_read e) (consumer_read (status_read_in_wait e) (mStatusMQ t))"

text \<open>
  \<open>ReadThread::threadLoop\<close> (lines 80-111). The loop may run for ever; the list gives
  the environment of the iterations that are followed. \<open>Returned False t\<close> is the
  \<open>return false\<close> of line 110; \<open>Looping t\<close> says that the list is used up and the
  thread is still inside the loop, the stop flag read as false at line 83.
\<close>

datatype loop_outcome = Returned bool ReadThread | Looping ReadThread

fun threadLoop :: "platform \<Rightarrow> ReadThread \<Rightarrow> env_step list \<Rightarrow> loop_outcome" where
  "threadLoop P t [] = (if mStop t then Returned False t else Looping t)"
| "threadLoop P t (e # es) =
     (if mStop t then Returned False t else threadLoop P (iteration P t e) es)"

text \<open>The number of device reads in a trace.\<close>

fun device_reads :: "action list \<Rightarrow> nat" where
  "device_reads [] = 0"
| "device_reads (DeviceRead n # tr) = Suc (device_reads tr)"
| "device_reads (a # tr) = device_reads tr"

subsection \<open>The stream controller\<close>

text \<open>
  The constructor of \<open>ReadThread\<close> (lines 39-53). The buffer has one byte for each
  quantum of the data queue; C++ leaves its contents indeterminate, the model zeroes
  them.
\<close>

definition ReadThread_new ::
  "bool \<Rightarrow> byte MessageQueue \<Rightarrow> ReadStatus MessageQueue \<Rightarrow> 32 word \<Rightarrow> ThreadPriority \<Rightarrow> ReadThread" where
  "ReadThread_new stop dataMQ statusMQ efGroup threadPriority =
     \<lparr>mStop = stop, mDataMQ = dataMQ, mStatusMQ = statusMQ, mEfGroup = efGroup,
      mThreadPriority = threadPriority, mBuffer = replicate (quantumCount dataMQ) 0,
      trace = [], warnings = []\<rparr>"

text \<open>
  A queue descriptor: \<open>EmptyDescriptor\<close> is the default-constructed
  \<open>DataMQ::Descriptor()\<close>, \<open>Descriptor n\<close> the descriptor \<open>getDesc\<close> returns for a
  queue of \<open>n\<close> quanta.
\<close>

datatype MQDescriptor = EmptyDescriptor | Descriptor nat

definition getDesc :: "'a MessageQueue \<Rightarrow> MQDescriptor" where
  "getDesc q = Descriptor (quantumCount q)"

text \<open>The calls of \<open>close\<close> and \<open>prepareForReading\<close> that act on the session.\<close>

datatype stream_action = Run | StoreStop | RequestExitAndWait | DeleteEventFlag | CloseInputStream

text \<open>
  The members of \<open>StreamIn\<close> that \<open>close\<close> and \<open>prepareForReading\<close> use. A smart
  pointer is an option, \<open>None\<close> when it is null. \<open>mEfGroup\<close> holds the event-flag
  word, \<open>actions\<close> the calls in order, \<open>errors\<close> the \<open>ALOGE\<close> and \<open>ALOGW\<close> lines.
\<close>

record StreamIn =
  mIsClosed :: bool
  mEfGroup :: "32 word option"
  mStopReadThread :: bool
  mDataMQ :: "byte MessageQueue option"
  mStatusMQ :: "ReadStatus MessageQueue option"
  mReadThread :: "ReadThread option"
  actions :: "stream_action list"
  errors :: "string list"

text \<open>The constructor \<open>StreamIn::StreamIn\<close> (lines 115-120).\<close>

definition StreamIn_new :: StreamIn where
  "StreamIn_new =
     \<lparr>mIsClosed = False, mEfGroup = None, mStopReadThread = False, mDataMQ = None,
      mStatusMQ = None, mReadThread = None, actions = [], errors = []\<rparr>"

text \<open>What the thread library and the event-flag library answer to \<open>close\<close>.\<close>

record close_env =
  exit_status :: status_t
  delete_status :: status_t

text \<open>\<open>StreamIn::close\<close> (lines 238-252).\<close>

definition close :: "StreamIn \<Rightarrow> close_env \<Rightarrow> StreamIn \<times> Result" where
  "close s env =
     (if mIsClosed s then (s, INVALID_STATE)
      else
        let s1 = s\<lparr>mIsClosed := True\<rparr>;
            s2 = (case mReadThread s1 of
                    Some th \<Rightarrow>
                      s1\<lparr>mStopReadThread := True,
                         actions := actions s1 @ [StoreStop, RequestExitAndWait],
                         errors := errors s1 @
                           (if exit_status env \<noteq> 0 then [''read thread exit error: %s''] else [])\<rparr>
                  | None \<Rightarrow> s1);
            s3 = (case mEfGroup s2 of
                    Some ef \<Rightarrow>
                      s2\<lparr>mEfGroup := None,
                         actions := actions s2 @ [DeleteEventFlag],
                         errors := errors s2 @
                           (if delete_status env \<noteq> 0
                            then [''read MQ event flag deletion error: %s''] else [])\<rparr>
                  | None \<Rightarrow> s2)
        in (s3\<lparr>actions := actions s3 @ [CloseInputStream]\<rparr>, OK))"

text \<open>
  What the libraries answer to \<open>prepareForReading\<close>: whether each new queue is valid,
  the status of \<open>createEventFlag\<close> and whether it left a flag in \<open>mEfGroup\<close>, and the
  status of \<open>run\<close>.
\<close>

record setup_env =
  dataMQ_valid :: bool
  statusMQ_valid :: bool
  createEventFlag_status :: status_t
  createEventFlag_flag :: bool
  run_status :: status_t

text \<open>
  \<open>StreamIn::prepareForReading\<close> (lines 270-320). The result is the new state and the
  three arguments of the callback. \<open>frameSize * framesCount\<close> is a product of two
  \<open>uint32_t\<close> and wraps. A new event-flag word is zero.
\<close>

definition prepareForReading ::
  "StreamIn \<Rightarrow> 32 word \<Rightarrow> 32 word \<Rightarrow> ThreadPriority \<Rightarrow> setup_env
     \<Rightarrow> StreamIn \<times> Result \<times> MQDescriptor \<times> MQDescriptor" where
  "prepareForReading s frameSize framesCount threadPriority env =
     (if mDataMQ s \<noteq> None
      then (s\<lparr>errors := errors s @ [''the client attempts to call prepareForReading twice'']\<rparr>,
            INVALID_STATE, EmptyDescriptor, EmptyDescriptor)
      else
        let tempDataMQ = \<lparr>quantumCount = unat (frameSize * framesCount), contents = [],
                           isValid = dataMQ_valid env\<rparr>;
            tempStatusMQ = \<lparr>quantumCount = 1, contents = [], isValid = statusMQ_valid env\<rparr>
        in if \<not> isValid tempDataMQ \<or> \<not> isValid tempStatusMQ
           then (s\<lparr>errors := errors s @
                      (if \<not> isValid tempDataMQ then [''data MQ is invalid''] else []) @
                      (if \<not> isValid tempStatusMQ then [''status MQ is invalid''] else [])\<rparr>,
                 INVALID_ARGUMENTS, EmptyDescriptor, EmptyDescriptor)
           else
             let s1 = s\<lparr>mEfGroup := (if createEventFlag_flag env then Some 0 else None)\<rparr>
             in case (if createEventFlag_status env \<noteq> status_OK then None else mEfGroup s1) of
                  None \<Rightarrow>
                    (s1\<lparr>errors := errors s1 @ [''failed creating event flag for data MQ: %s'']\<rparr>,
                     INVALID_ARGUMENTS, EmptyDescriptor, EmptyDescriptor)
                | Some ef \<Rightarrow>
                    let s2 = s1\<lparr>mReadThread :=
                                  Some (ReadThread_new (mStopReadThread s1) tempDataMQ
                                          tempStatusMQ ef threadPriority),
                                actions := actions s1 @ [Run]\<rparr>
                    in if run_status env \<noteq> status_OK
                       then (s2\<lparr>errors := errors s2 @ [''failed to start reader thread: %s'']\<rparr>,
                             INVALID_ARGUMENTS, EmptyDescriptor, EmptyDescriptor)
                       else (s2\<lparr>mDataMQ := Some tempDataMQ, mStatusMQ := Some tempStatusMQ\<rparr>,
                             OK, getDesc tempDataMQ, getDesc tempStatusMQ))"

text \<open>A sequence of calls on one stream, each with what the libraries answer to it.\<close>

datatype call =
    Close close_env
  | PrepareForReading "32 word" "32 word" ThreadPriority setup_env

fun do_call :: "StreamIn \<Rightarrow> call \<Rightarrow> StreamIn" where
  "do_call s (Close env) = fst (close s env)"
| "do_call s (PrepareForReading frameSize framesCount threadPriority env) =
     fst (prepareForReading s frameSize framesCount threadPriority env)"

fun do_calls :: "StreamIn \<Rightarrow> call list \<Rightarrow> StreamIn" where
  "do_calls s [] = s"
| "do_calls s (c # cs) = do_calls (do_call s c) cs"

subsection \<open>Example inputs\<close>

text \<open>
  A platform with the two flag bits as the interface description numbers them and a
  status mapping that sends zero to \<open>OK\<close> and tells three error numbers apart.
\<close>

definition example_platform :: platform where
  "example_platform =
     \<lparr>NOT_EMPTY = 1, NOT_FULL = 2, NS_PER_SEC = 1000000000,
      analyzeStatus = (\<lambda>name status.
        if status = 0 then OK
        else if status = - 22 then INVALID_ARGUMENTS
        else if status = - 19 then NOT_INITIALIZED
        else if status = - 38 then NOT_SUPPORTED
        else INVALID_STATE)\<rparr>"

text \<open>
  A thread as \<open>prepareForReading\<close> builds it for a data queue of four bytes, at a
  moment when the data queue holds \<open>bs\<close> and the status queue \<open>sts\<close>.
\<close>

definition example_thread :: "byte list \<Rightarrow> ReadStatus list \<Rightarrow> ReadThread" where
  "example_thread bs sts =
     ReadThread_new False \<lparr>quantumCount = 4, contents = bs, isValid = True\<rparr>
       \<lparr>quantumCount = 1, contents = sts, isValid = True\<rparr> 0 URGENT_AUDIO"

text \<open>
  An iteration in which the consumer has posted \<open>NOT_FULL\<close> and the device reads
  \<open>result\<close> bytes (or fails with a negative \<open>result\<close>) and stores \<open>bytes\<close>.
\<close>

definition example_env :: "int \<Rightarrow> byte list \<Rightarrow> env_step" where
  "example_env result bytes =
     \<lparr>stop_in_wait = False, data_read_in_wait = 0, status_read_in_wait = 0,
      ef_word = 2, rd_result = result, rd_bytes = bytes, data_read_in_read = 0,
      status_read_in_read = 0, stop_after_wait = False\<rparr>"

text \<open>Library answers with which \<open>prepareForReading\<close> succeeds.\<close>

definition example_setup :: setup_env where
  "example_setup =
     \<lparr>dataMQ_valid = True, statusMQ_valid = True, createEventFlag_status = 0,
      createEventFlag_flag = True, run_status = 0\<rparr>"

definition example_close :: close_env where
  "example_close = \<lparr>exit_status = 0, delete_status = 0\<rparr>"

section \<open>Properties\<close>

subsection \<open>One iteration of the capture loop, field by field\<close>

lemma availableToWrite_consumer_read:
  "availableToWrite q \<le> availableToWrite (consumer_read k q)"
  by (simp add: availableToWrite_def consumer_read_def)

lemma query_le_write: "availableToWrite (dataMQ_at_query e t) \<le> availableToWrite (dataMQ_at_write e t)"
  by (simp add: dataMQ_at_write_def availableToWrite_consumer_read)

lemma length_store_bytes: "length (store_bytes bs buf) = length buf"
  by (simp add: store_bytes_def)


lemmas body_defs = iteration_def wait_step_def read_step_def data_step_def status_step_def
  wait_def wake_def others_def mq_write_def dataMQ_at_query_def dataMQ_at_write_def
  statusMQ_at_write_def

lemma trace_no_space:
  "ef_word e AND NOT_FULL P = 0 \<Longrightarrow>
   trace (iteration P t e) = trace t @ [Wait (NOT_FULL P) (NS_PER_SEC P)]"
  by (simp add: body_defs and.assoc Let_def case_prod_beta)

lemma trace_read_ok:
  assumes "ef_word e AND NOT_FULL P \<noteq> 0" and "0 \<le> rd_result e"
  shows "trace (iteration P t e) = trace t @
     [Wait (NOT_FULL P) (NS_PER_SEC P),
      AvailableToWrite (availableToWrite (dataMQ_at_query e t)),
      DeviceRead (availableToWrite (dataMQ_at_query e t)),
      DataWrite (take (nat (rd_result e)) (store_bytes (rd_bytes e) (mBuffer t)))
        (nat (rd_result e) \<le> availableToWrite (dataMQ_at_write e t)),
      StatusWrite \<lparr>retval = OK, read = word_of_int (rd_result e)\<rparr>
        (1 \<le> availableToWrite (statusMQ_at_write e t)),
      Wake (NOT_EMPTY P)]"
  using assms by (simp add: body_defs and.assoc Let_def case_prod_beta)

lemma trace_read_failed:
  assumes "ef_word e AND NOT_FULL P \<noteq> 0" and "rd_result e < 0"
  shows "trace (iteration P t e) = trace t @
     [Wait (NOT_FULL P) (NS_PER_SEC P),
      AvailableToWrite (availableToWrite (dataMQ_at_query e t)),
      DeviceRead (availableToWrite (dataMQ_at_query e t)),
      StatusWrite \<lparr>retval = analyzeStatus P ''read'' (rd_result e), read = 0\<rparr>
        (1 \<le> availableToWrite (statusMQ_at_write e t)),
      Wake (NOT_EMPTY P)]"
  using assms by (simp add: body_defs and.assoc Let_def case_prod_beta)






lemma mStop_iteration:
  "mStop (iteration P t e) =
     (mStop t \<or> stop_in_wait e \<or> (ef_word e AND NOT_FULL P \<noteq> 0 \<and> stop_after_wait e))"
  by (simp add: body_defs and.assoc Let_def case_prod_beta)

lemma mBuffer_length_iteration: "length (mBuffer (iteration P t e)) = length (mBuffer t)"
  by (simp add: body_defs and.assoc Let_def case_prod_beta length_store_bytes)

lemma quantumCount_iteration:
  "quantumCount (ReadThread.mDataMQ (iteration P t e)) = quantumCount (ReadThread.mDataMQ t)"
  by (simp add: body_defs and.assoc Let_def case_prod_beta consumer_read_def)

lemmas example_defs = example_platform_def example_thread_def example_env_def
  ReadThread_new_def availableToWrite_def consumer_read_def store_bytes_def

subsection \<open>The loop as a whole\<close>

lemma device_reads_append: "device_reads (xs @ ys) = device_reads xs + device_reads ys"
  by (induction xs rule: device_reads.induct) simp_all

lemma mStop_wait_step: "mStop (snd (wait_step P t e)) = (mStop t \<or> stop_in_wait e)"
  by (simp add: wait_step_def others_def Let_def case_prod_beta)

lemma threadLoop_without_stop:
  "\<not> mStop t \<Longrightarrow> \<forall>e \<in> set es. \<not> stop_in_wait e \<and> \<not> stop_after_wait e \<Longrightarrow>
   threadLoop P t es = Looping (foldl (iteration P) t es)"
proof (induction es arbitrary: t)
  case Nil
  then show ?case by simp
next
  case (Cons e es)
  from Cons.prems have "\<not> mStop (iteration P t e)"
    by (simp add: mStop_iteration)
  with Cons show ?case by simp
qed

lemma last_trace_after_read:
  assumes "ef_word e AND NOT_FULL P \<noteq> 0"
  shows "last (trace (iteration P t e)) = Wake (NOT_EMPTY P)"
proof (cases "0 \<le> rd_result e")
  case True
  show ?thesis by (simp add: trace_read_ok [OF assms True])
next
  case False
  then have neg: "rd_result e < 0" by simp
  show ?thesis by (simp add: trace_read_failed [OF assms neg])
qed

lemma device_reads_iteration:
  "device_reads (trace (iteration P t e)) =
     device_reads (trace t) + (if ef_word e AND NOT_FULL P = 0 then 0 else 1)"
proof (cases "ef_word e AND NOT_FULL P = 0")
  case True
  then show ?thesis by (simp add: trace_no_space device_reads_append)
next
  case obs: False
  show ?thesis
  proof (cases "0 \<le> rd_result e")
    case True
    show ?thesis using obs by (simp add: trace_read_ok [OF obs True] device_reads_append)
  next
    case False
    then have neg: "rd_result e < 0" by simp
    show ?thesis using obs by (simp add: trace_read_failed [OF obs neg] device_reads_append)
  qed
qed

subsection \<open>The calls of the controller\<close>

lemma close_when_closed: "mIsClosed s \<Longrightarrow> close s env = (s, INVALID_STATE)"
  by (simp add: close_def)

lemma mIsClosed_prepareForReading:
  "mIsClosed (fst (prepareForReading s frameSize framesCount threadPriority env)) = mIsClosed s"
  by (simp add: prepareForReading_def Let_def split: option.splits)

lemma mIsClosed_do_call: "mIsClosed s \<Longrightarrow> mIsClosed (do_call s c)"
  by (cases c) (simp_all add: close_when_closed mIsClosed_prepareForReading)

lemma mIsClosed_do_calls: "mIsClosed s \<Longrightarrow> mIsClosed (do_calls s cs)"
  by (induction cs arbitrary: s) (simp_all add: mIsClosed_do_call)

lemma close_first:
  assumes "\<not> mIsClosed s"
  shows "snd (close s env) = OK"
    and "mIsClosed (fst (close s env))"
    and "actions (fst (close s env)) = actions s @
           (if mReadThread s \<noteq> None then [StoreStop, RequestExitAndWait] else []) @
           (if StreamIn.mEfGroup s \<noteq> None then [DeleteEventFlag] else []) @ [CloseInputStream]"
    and "mStopReadThread (fst (close s env)) = (mStopReadThread s \<or> mReadThread s \<noteq> None)"
    and "StreamIn.mEfGroup (fst (close s env)) = None"
  using assms by (simp_all add: close_def Let_def split: option.splits)

lemma queues_together_close:
  "(StreamIn.mDataMQ (fst (close s env)) = None) = (StreamIn.mDataMQ s = None)
   \<and> (StreamIn.mStatusMQ (fst (close s env)) = None) = (StreamIn.mStatusMQ s = None)"
  by (simp add: close_def Let_def split: option.splits)

lemma queues_together_prepareForReading:
  "(StreamIn.mDataMQ s = None) = (StreamIn.mStatusMQ s = None) \<Longrightarrow>
   (StreamIn.mDataMQ (fst (prepareForReading s frameSize framesCount threadPriority env)) = None) =
   (StreamIn.mStatusMQ (fst (prepareForReading s frameSize framesCount threadPriority env)) = None)"
  by (simp add: prepareForReading_def Let_def split: option.splits)

lemma queues_together_do_call:
  "(StreamIn.mDataMQ s = None) = (StreamIn.mStatusMQ s = None) \<Longrightarrow>
   (StreamIn.mDataMQ (do_call s c) = None) = (StreamIn.mStatusMQ (do_call s c) = None)"
  by (cases c) (simp_all add: queues_together_close queues_together_prepareForReading)

lemma queues_together_do_calls:
  "(StreamIn.mDataMQ s = None) = (StreamIn.mStatusMQ s = None) \<Longrightarrow>
   (StreamIn.mDataMQ (do_calls s cs) = None) = (StreamIn.mStatusMQ (do_calls s cs) = None)"
  by (induction cs arbitrary: s) (simp_all add: queues_together_do_call)

lemma queues_together_reachable:
  "(StreamIn.mDataMQ (do_calls StreamIn_new cs) = None) =
   (StreamIn.mStatusMQ (do_calls StreamIn_new cs) = None)"
  by (rule queues_together_do_calls) (simp add: StreamIn_new_def)

lemma prepareForReading_session_exists:
  "StreamIn.mDataMQ s \<noteq> None \<Longrightarrow>
   prepareForReading s frameSize framesCount threadPriority env =
     (s\<lparr>errors := errors s @ [''the client attempts to call prepareForReading twice'']\<rparr>,
      INVALID_STATE, EmptyDescriptor, EmptyDescriptor)"
  by (simp add: prepareForReading_def)

lemma prepareForReading_OK:
  assumes "prepareForReading s frameSize framesCount threadPriority env = (s1, OK, d1, d2)"
  shows "StreamIn.mDataMQ s1 \<noteq> None" and "StreamIn.mStatusMQ s1 \<noteq> None"
    and "StreamIn.mEfGroup s1 \<noteq> None" and "mReadThread s1 \<noteq> None"
    and "mStopReadThread s1 = mStopReadThread s"
  using assms
  by (auto simp add: prepareForReading_def Let_def split: option.splits if_splits)

lemma prepareForReading_result:
  "StreamIn.mDataMQ s = None \<Longrightarrow>
   fst (snd (prepareForReading s frameSize framesCount threadPriority env)) =
     (if \<not> dataMQ_valid env \<or> \<not> statusMQ_valid env \<or> createEventFlag_status env \<noteq> status_OK
         \<or> \<not> createEventFlag_flag env \<or> run_status env \<noteq> status_OK
      then INVALID_ARGUMENTS else OK)"
  by (simp add: prepareForReading_def Let_def split: option.splits)

lemma prepareForReading_failed_queues:
  "fst (snd (prepareForReading s frameSize framesCount threadPriority env)) \<noteq> OK \<Longrightarrow>
   StreamIn.mDataMQ (fst (prepareForReading s frameSize framesCount threadPriority env)) = StreamIn.mDataMQ s
   \<and> StreamIn.mStatusMQ (fst (prepareForReading s frameSize framesCount threadPriority env)) = StreamIn.mStatusMQ s"
  by (simp add: prepareForReading_def Let_def split: option.splits if_splits)

lemmas stream_example_defs = StreamIn_new_def example_setup_def example_close_def
  prepareForReading_def close_def status_OK_def getDesc_def ReadThread_new_def Let_def

subsection \<open>The capture loop\<close>




text \<open>
  Claim C2, as stated, fails. The stop flag is false at the loop head and is stored
  while the thread is blocked in the wait; the consumer posts \<open>NOT_FULL\<close> before
  the timeout. The flag is set when the wait returns, but the body does not look at it
  again: it reads from the device, writes both queues and wakes the consumer, and only
  then returns.
\<close>

theorem stop_during_wait_counterexample:
  "\<not> mStop (example_thread [] [])
   \<and> stop_in_wait ((example_env 2 [7, 9])\<lparr>stop_in_wait := True\<rparr>)
   \<and> mStop (snd (wait_step example_platform (example_thread [] [])
        ((example_env 2 [7, 9])\<lparr>stop_in_wait := True\<rparr>)))
   \<and> trace (iteration example_platform (example_thread [] [])
        ((example_env 2 [7, 9])\<lparr>stop_in_wait := True\<rparr>)) =
       [Wait 2 1000000000, AvailableToWrite 4, DeviceRead 4, DataWrite [7, 9] True,
        StatusWrite \<lparr>retval = OK, read = 2\<rparr> True, Wake 1]
   \<and> threadLoop example_platform (example_thread [] [])
        [(example_env 2 [7, 9])\<lparr>stop_in_wait := True\<rparr>] =
       Returned False (iteration example_platform (example_thread [] [])
        ((example_env 2 [7, 9])\<lparr>stop_in_wait := True\<rparr>))"
  by (simp add: mStop_wait_step mStop_iteration trace_read_ok example_defs
      dataMQ_at_query_def dataMQ_at_write_def statusMQ_at_write_def)

text \<open>
  Claim C2, amended. When the stop flag becomes true while the thread is blocked in the
  wait, the flag is set when the wait returns and the thread returns from
  \<open>threadLoop\<close> at the next test of the loop head, that is, at the end of this very
  iteration and without another wait, whatever the environment would offer next. If
  the wait returned without \<open>NOT_FULL\<close>, the iteration is the wait alone and no
  device read follows the store. If it returned with \<open>NOT_FULL\<close>, the iteration
  performs exactly one device read, the last one.
\<close>

theorem stop_during_wait_exit:
  assumes "\<not> mStop t" and "stop_in_wait e"
  shows "mStop (snd (wait_step P t e))
       \<and> threadLoop P t (e # es) = Returned False (iteration P t e)
       \<and> device_reads (trace (iteration P t e)) =
           device_reads (trace t) + (if ef_word e AND NOT_FULL P = 0 then 0 else 1)
       \<and> (ef_word e AND NOT_FULL P = 0 \<longrightarrow>
            trace (iteration P t e) = trace t @ [Wait (NOT_FULL P) (NS_PER_SEC P)])"
proof -
  have stop: "mStop (iteration P t e)"
    using assms(2) by (simp add: mStop_iteration)
  have exit: "threadLoop P t (e # es) = Returned False (iteration P t e)"
    using assms(1) stop by (cases es) simp_all
  show ?thesis
    using assms(2) exit by (simp add: mStop_wait_step device_reads_iteration trace_no_space)
qed

theorem stop_during_wait_exit_witness:
  "\<not> mStop (example_thread [] [])
   \<and> stop_in_wait ((example_env 2 [7, 9])\<lparr>stop_in_wait := True, ef_word := 0\<rparr>)
   \<and> threadLoop example_platform (example_thread [] [])
        [(example_env 2 [7, 9])\<lparr>stop_in_wait := True, ef_word := 0\<rparr>, example_env 1 [5]] =
       Returned False (iteration example_platform (example_thread [] [])
         ((example_env 2 [7, 9])\<lparr>stop_in_wait := True, ef_word := 0\<rparr>))
   \<and> trace (iteration example_platform (example_thread [] [])
        ((example_env 2 [7, 9])\<lparr>stop_in_wait := True, ef_word := 0\<rparr>)) = [Wait 2 1000000000]
   \<and> device_reads (trace (iteration example_platform (example_thread [] [])
        ((example_env 2 [7, 9])\<lparr>stop_in_wait := True\<rparr>))) = 1"
  using stop_during_wait_exit [where P = example_platform and t = "example_thread [] []"
      and e = "(example_env 2 [7, 9])\<lparr>stop_in_wait := True, ef_word := 0\<rparr>"
      and es = "[example_env 1 [5]]"]
    stop_during_wait_exit [where P = example_platform and t = "example_thread [] []"
      and e = "(example_env 2 [7, 9])\<lparr>stop_in_wait := True\<rparr>" and es = "[]"]
  by (simp add: example_defs)




text \<open>
  Claim C4. In an iteration that reaches the device read, the query of
  \<open>availableToWrite\<close> on the data queue is the call right before the read, the read
  asks for exactly the number the query returned, and it is the only read of the
  iteration. The request is no more than the free space at the later moment of the
  write, since the consumer can only free space, and no more than the capacity of the
  queue.
\<close>

theorem read_request_is_available_space:
  assumes "ef_word e AND NOT_FULL P \<noteq> 0"
  shows "(\<exists>rest. trace (iteration P t e) = trace t @
            [Wait (NOT_FULL P) (NS_PER_SEC P),
             AvailableToWrite (availableToWrite (dataMQ_at_query e t)),
             DeviceRead (availableToWrite (dataMQ_at_query e t))] @ rest
            \<and> device_reads rest = 0)
       \<and> availableToWrite (dataMQ_at_query e t) \<le> availableToWrite (dataMQ_at_write e t)
       \<and> availableToWrite (dataMQ_at_query e t) \<le> quantumCount (ReadThread.mDataMQ t)"
proof -
  have tr: "\<exists>rest. trace (iteration P t e) = trace t @
            [Wait (NOT_FULL P) (NS_PER_SEC P),
             AvailableToWrite (availableToWrite (dataMQ_at_query e t)),
             DeviceRead (availableToWrite (dataMQ_at_query e t))] @ rest
            \<and> device_reads rest = 0"
  proof (cases "0 \<le> rd_result e")
    case True
    show ?thesis using trace_read_ok [OF assms True, of t] by simp
  next
    case False
    then have neg: "rd_result e < 0" by simp
    show ?thesis using trace_read_failed [OF assms neg, of t] by simp
  qed
  have cap: "availableToWrite (dataMQ_at_query e t) \<le> quantumCount (ReadThread.mDataMQ t)"
    by (simp add: availableToWrite_def dataMQ_at_query_def consumer_read_def)
  show ?thesis using tr query_le_write [of e t] cap by simp
qed

theorem read_request_is_available_space_witness:
  "ef_word (example_env 1 [8]) AND NOT_FULL example_platform \<noteq> 0
   \<and> (\<exists>rest. trace (iteration example_platform (example_thread [1, 2, 3] []) (example_env 1 [8])) =
        [Wait 2 1000000000, AvailableToWrite 1, DeviceRead 1] @ rest)"
  using read_request_is_available_space [where P = example_platform
      and t = "example_thread [1, 2, 3] []" and e = "example_env 1 [8]"]
  by (auto simp add: example_defs dataMQ_at_query_def dataMQ_at_write_def statusMQ_at_write_def)

text \<open>
  Claim C8. \<open>readyToRun\<close> returns \<open>OK\<close> whatever \<open>requestPriority\<close> answers,
  and leaves the stop flag alone. An iteration that reaches the device read ends with
  the wake, whether its two writes succeed or fail. The stop flag after an iteration
  is the flag before it or a store by the controller, so the result of a write never
  ends the loop: if the controller stores nothing, the next iteration begins, and a
  loop in which the controller never stores the flag stays in the loop for every
  environment, the ones with failing writes among them.
\<close>

theorem faults_do_not_abort:
  "fst (readyToRun t err) = status_OK
   \<and> mStop (snd (readyToRun t err)) = mStop t
   \<and> (ef_word e AND NOT_FULL P \<noteq> 0 \<longrightarrow> last (trace (iteration P t e)) = Wake (NOT_EMPTY P))
   \<and> mStop (iteration P t e) =
       (mStop t \<or> stop_in_wait e \<or> (ef_word e AND NOT_FULL P \<noteq> 0 \<and> stop_after_wait e))
   \<and> (\<not> mStop t \<and> \<not> stop_in_wait e \<and> \<not> stop_after_wait e \<longrightarrow>
        threadLoop P t (e # e' # es) = threadLoop P (iteration P (iteration P t e) e') es)
   \<and> (\<not> mStop t \<and> (\<forall>e \<in> set es. \<not> stop_in_wait e \<and> \<not> stop_after_wait e) \<longrightarrow>
        threadLoop P t es = Looping (foldl (iteration P) t es))"
proof -
  have ready: "fst (readyToRun t err) = status_OK \<and> mStop (snd (readyToRun t err)) = mStop t"
    by (simp add: readyToRun_def)
  have next_iteration: "\<not> mStop t \<and> \<not> stop_in_wait e \<and> \<not> stop_after_wait e \<longrightarrow>
      threadLoop P t (e # e' # es) = threadLoop P (iteration P (iteration P t e) e') es"
    by (simp add: mStop_iteration)
  show ?thesis
    using ready next_iteration last_trace_after_read [of e P t] threadLoop_without_stop [of t es P]
    by (simp add: mStop_iteration)
qed

theorem faults_do_not_abort_witness:
  "fst (readyToRun (example_thread [1, 2] [\<lparr>retval = OK, read = 2\<rparr>]) (- 1)) = status_OK
   \<and> \<not> mStop (example_thread [1, 2] [\<lparr>retval = OK, read = 2\<rparr>])
   \<and> \<not> stop_in_wait (example_env 3 [4, 5, 6]) \<and> \<not> stop_after_wait (example_env 3 [4, 5, 6])
   \<and> \<not> stop_in_wait (example_env 0 []) \<and> \<not> stop_after_wait (example_env 0 [])
   \<and> threadLoop example_platform (example_thread [1, 2] [\<lparr>retval = OK, read = 2\<rparr>])
        [example_env 3 [4, 5, 6], example_env 0 []] =
       Looping (foldl (iteration example_platform) (example_thread [1, 2] [\<lparr>retval = OK, read = 2\<rparr>])
        [example_env 3 [4, 5, 6], example_env 0 []])
   \<and> trace (foldl (iteration example_platform) (example_thread [1, 2] [\<lparr>retval = OK, read = 2\<rparr>])
        [example_env 3 [4, 5, 6], example_env 0 []]) =
       [Wait 2 1000000000, AvailableToWrite 2, DeviceRead 2, DataWrite [4, 5, 6] False,
        StatusWrite \<lparr>retval = OK, read = 3\<rparr> False, Wake 1,
        Wait 2 1000000000, AvailableToWrite 2, DeviceRead 2, DataWrite [] True,
        StatusWrite \<lparr>retval = OK, read = 0\<rparr> False, Wake 1]"
  using faults_do_not_abort [where P = example_platform
      and t = "example_thread [1, 2] [\<lparr>retval = OK, read = 2\<rparr>]"
      and es = "[example_env 3 [4, 5, 6], example_env 0 []]" and err = "- 1"
      and e = "example_env 3 [4, 5, 6]" and e' = "example_env 0 []"]
  by (simp add: example_defs body_defs readyToRun_def and.assoc)



subsection \<open>Session setup and close\<close>

text \<open>
  Claim C5. After a call of \<open>prepareForReading\<close> that returned \<open>OK\<close>, the stream
  holds both queues, the event flag and the thread, and the next call of
  \<open>prepareForReading\<close>, whatever its arguments and whatever the libraries would
  answer, returns \<open>INVALID_STATE\<close> with empty descriptors and changes nothing but the
  error log: queues, event flag, thread, stop flag, closed flag and the list of calls
  are as the first call left them.
\<close>

theorem second_setup_rejected:
  assumes "prepareForReading s frameSize framesCount threadPriority env = (s1, OK, dataDesc, statusDesc)"
  shows "prepareForReading s1 frameSize' framesCount' threadPriority' env' =
           (s1\<lparr>errors := errors s1 @ [''the client attempts to call prepareForReading twice'']\<rparr>,
            INVALID_STATE, EmptyDescriptor, EmptyDescriptor)
       \<and> StreamIn.mDataMQ s1 \<noteq> None \<and> StreamIn.mStatusMQ s1 \<noteq> None
       \<and> StreamIn.mEfGroup s1 \<noteq> None \<and> mReadThread s1 \<noteq> None
       \<and> StreamIn.mDataMQ (fst (prepareForReading s1 frameSize' framesCount' threadPriority' env')) =
           StreamIn.mDataMQ s1
       \<and> StreamIn.mStatusMQ (fst (prepareForReading s1 frameSize' framesCount' threadPriority' env')) =
           StreamIn.mStatusMQ s1
       \<and> StreamIn.mEfGroup (fst (prepareForReading s1 frameSize' framesCount' threadPriority' env')) =
           StreamIn.mEfGroup s1
       \<and> mReadThread (fst (prepareForReading s1 frameSize' framesCount' threadPriority' env')) =
           mReadThread s1
       \<and> mStopReadThread (fst (prepareForReading s1 frameSize' framesCount' threadPriority' env')) =
           mStopReadThread s1
       \<and> mIsClosed (fst (prepareForReading s1 frameSize' framesCount' threadPriority' env')) =
           mIsClosed s1
       \<and> actions (fst (prepareForReading s1 frameSize' framesCount' threadPriority' env')) =
           actions s1"
  using prepareForReading_OK [OF assms]
  by (simp add: prepareForReading_session_exists)

theorem second_setup_rejected_witness:
  "snd (prepareForReading StreamIn_new 2 2 URGENT_AUDIO example_setup) = (OK, Descriptor 4, Descriptor 1)
   \<and> snd (prepareForReading (fst (prepareForReading StreamIn_new 2 2 URGENT_AUDIO example_setup))
        2 2 URGENT_AUDIO example_setup) = (INVALID_STATE, EmptyDescriptor, EmptyDescriptor)
   \<and> StreamIn.mDataMQ (fst (prepareForReading (fst (prepareForReading StreamIn_new 2 2 URGENT_AUDIO example_setup))
        2 2 URGENT_AUDIO example_setup)) = Some \<lparr>quantumCount = 4, contents = [], isValid = True\<rparr>"
proof -
  have first: "prepareForReading StreamIn_new 2 2 URGENT_AUDIO example_setup =
      (fst (prepareForReading StreamIn_new 2 2 URGENT_AUDIO example_setup), OK, Descriptor 4, Descriptor 1)"
    by (simp add: stream_example_defs)
  show ?thesis
    using second_setup_rejected [OF first, of 2 2 URGENT_AUDIO example_setup] first
    by (simp add: stream_example_defs)
qed

text \<open>
  Claim C6, as stated, fails. On a stream that never had a session, the first
  \<open>close\<close> returns \<open>OK\<close> without setting the stop flag, without joining a thread and
  without destroying an event flag: closing the device stream is its only call.
\<close>

theorem close_counterexample:
  "\<not> mIsClosed StreamIn_new
   \<and> snd (close StreamIn_new example_close) = OK
   \<and> \<not> mStopReadThread (fst (close StreamIn_new example_close))
   \<and> actions (fst (close StreamIn_new example_close)) = [CloseInputStream]"
  by (simp add: stream_example_defs)

text \<open>
  Claim C6, amended. The first call of \<open>close\<close> on a stream returns \<open>OK\<close> after
  these steps, in this order: if a capture thread exists, it sets the stop flag and
  joins the thread; if an event flag exists, it destroys it; it closes the device
  input stream. Every later call of \<open>close\<close>, whatever calls come between, returns
  \<open>INVALID_STATE\<close> and changes nothing.
\<close>

theorem close_once:
  assumes "\<not> mIsClosed s"
  shows "snd (close s env) = OK
       \<and> actions (fst (close s env)) = actions s @
           (if mReadThread s \<noteq> None then [StoreStop, RequestExitAndWait] else []) @
           (if StreamIn.mEfGroup s \<noteq> None then [DeleteEventFlag] else []) @ [CloseInputStream]
       \<and> mStopReadThread (fst (close s env)) = (mStopReadThread s \<or> mReadThread s \<noteq> None)
       \<and> StreamIn.mEfGroup (fst (close s env)) = None
       \<and> mIsClosed (fst (close s env))
       \<and> close (do_calls (fst (close s env)) cs) env' =
           (do_calls (fst (close s env)) cs, INVALID_STATE)"
  using close_first [OF assms, of env]
    close_when_closed [OF mIsClosed_do_calls [OF close_first(2) [OF assms, of env], of cs], of env']
  by simp

theorem close_once_witness:
  "\<not> mIsClosed (fst (prepareForReading StreamIn_new 2 2 URGENT_AUDIO example_setup))
   \<and> snd (close (fst (prepareForReading StreamIn_new 2 2 URGENT_AUDIO example_setup)) example_close) = OK
   \<and> actions (fst (close (fst (prepareForReading StreamIn_new 2 2 URGENT_AUDIO example_setup)) example_close)) =
       [Run, StoreStop, RequestExitAndWait, DeleteEventFlag, CloseInputStream]
   \<and> mStopReadThread (fst (close (fst (prepareForReading StreamIn_new 2 2 URGENT_AUDIO example_setup)) example_close))
   \<and> snd (close (do_calls (fst (close (fst (prepareForReading StreamIn_new 2 2 URGENT_AUDIO example_setup)) example_close))
        [Close example_close]) example_close) = INVALID_STATE
   \<and> actions (fst (close (do_calls (fst (close (fst (prepareForReading StreamIn_new 2 2 URGENT_AUDIO example_setup)) example_close))
        [Close example_close]) example_close)) =
       [Run, StoreStop, RequestExitAndWait, DeleteEventFlag, CloseInputStream]"
  using close_once [where s = "fst (prepareForReading StreamIn_new 2 2 URGENT_AUDIO example_setup)"
      and env = example_close and env' = example_close and cs = "[Close example_close]"]
  by (simp add: stream_example_defs)

text \<open>
  Claim C7. On a stream without a session, \<open>prepareForReading\<close> returns
  \<open>INVALID_ARGUMENTS\<close> and two empty descriptors if the data queue or the status
  queue is invalid, or if \<open>createEventFlag\<close> returns a status other than \<open>OK\<close> or
  leaves no event flag.
\<close>

theorem setup_failure_invalid_arguments:
  assumes "StreamIn.mDataMQ s = None"
      and "\<not> dataMQ_valid env \<or> \<not> statusMQ_valid env
           \<or> createEventFlag_status env \<noteq> status_OK \<or> \<not> createEventFlag_flag env"
  shows "snd (prepareForReading s frameSize framesCount threadPriority env) =
           (INVALID_ARGUMENTS, EmptyDescriptor, EmptyDescriptor)"
  using assms by (auto simp add: prepareForReading_def Let_def split: option.splits)

theorem setup_failure_invalid_arguments_witness:
  "StreamIn.mDataMQ StreamIn_new = None
   \<and> \<not> dataMQ_valid (example_setup\<lparr>dataMQ_valid := False\<rparr>)
   \<and> createEventFlag_status (example_setup\<lparr>createEventFlag_status := - 12\<rparr>) \<noteq> status_OK
   \<and> snd (prepareForReading StreamIn_new 2 2 NORMAL (example_setup\<lparr>dataMQ_valid := False\<rparr>)) =
       (INVALID_ARGUMENTS, EmptyDescriptor, EmptyDescriptor)
   \<and> snd (prepareForReading StreamIn_new 2 2 NORMAL (example_setup\<lparr>createEventFlag_status := - 12\<rparr>)) =
       (INVALID_ARGUMENTS, EmptyDescriptor, EmptyDescriptor)"
  using setup_failure_invalid_arguments [where s = StreamIn_new
      and env = "example_setup\<lparr>dataMQ_valid := False\<rparr>" and frameSize = 2 and framesCount = 2
      and threadPriority = NORMAL]
    setup_failure_invalid_arguments [where s = StreamIn_new
      and env = "example_setup\<lparr>createEventFlag_status := - 12\<rparr>" and frameSize = 2
      and framesCount = 2 and threadPriority = NORMAL]
  by (simp add: StreamIn_new_def example_setup_def status_OK_def)

text \<open>
  Claim C10. On a stream reached from the constructor by any calls, a
  \<open>prepareForReading\<close> that returns \<open>INVALID_ARGUMENTS\<close> (an invalid queue, a failed
  event-flag creation or a failed thread launch, and nothing else) leaves \<open>mDataMQ\<close>
  and \<open>mStatusMQ\<close> null, and the next \<open>prepareForReading\<close> is not answered with
  \<open>INVALID_STATE\<close>.
\<close>

theorem failed_setup_leaves_no_session:
  assumes "s = do_calls StreamIn_new cs"
      and "fst (snd (prepareForReading s frameSize framesCount threadPriority env)) = INVALID_ARGUMENTS"
  shows "StreamIn.mDataMQ (fst (prepareForReading s frameSize framesCount threadPriority env)) = None
       \<and> StreamIn.mStatusMQ (fst (prepareForReading s frameSize framesCount threadPriority env)) = None
       \<and> fst (snd (prepareForReading
                     (fst (prepareForReading s frameSize framesCount threadPriority env))
                     frameSize' framesCount' threadPriority' env')) \<noteq> INVALID_STATE
       \<and> (\<not> dataMQ_valid env \<or> \<not> statusMQ_valid env \<or> createEventFlag_status env \<noteq> status_OK
            \<or> \<not> createEventFlag_flag env \<or> run_status env \<noteq> status_OK)"
proof -
  have no_session: "StreamIn.mDataMQ s = None"
  proof (rule ccontr)
    assume "StreamIn.mDataMQ s \<noteq> None"
    then show False
      using assms(2) by (simp add: prepareForReading_session_exists)
  qed
  then have no_status: "StreamIn.mStatusMQ s = None"
    using queues_together_reachable [of cs] assms(1) by simp
  have kept: "StreamIn.mDataMQ (fst (prepareForReading s frameSize framesCount threadPriority env)) = None
      \<and> StreamIn.mStatusMQ (fst (prepareForReading s frameSize framesCount threadPriority env)) = None"
    using prepareForReading_failed_queues [of s frameSize framesCount threadPriority env]
      assms(2) no_session no_status by simp
  have branch: "\<not> dataMQ_valid env \<or> \<not> statusMQ_valid env \<or> createEventFlag_status env \<noteq> status_OK
      \<or> \<not> createEventFlag_flag env \<or> run_status env \<noteq> status_OK"
    using prepareForReading_result [OF no_session, of frameSize framesCount threadPriority env] assms(2)
    by (auto split: if_splits)
  have again: "fst (snd (prepareForReading
                     (fst (prepareForReading s frameSize framesCount threadPriority env))
                     frameSize' framesCount' threadPriority' env')) \<noteq> INVALID_STATE"
    using prepareForReading_result [of "fst (prepareForReading s frameSize framesCount threadPriority env)"
        frameSize' framesCount' threadPriority' env'] kept
    by simp
  show ?thesis using kept branch again by simp
qed

theorem failed_setup_leaves_no_session_witness:
  "StreamIn_new = do_calls StreamIn_new []
   \<and> fst (snd (prepareForReading StreamIn_new 2 2 NORMAL (example_setup\<lparr>run_status := - 12\<rparr>))) =
       INVALID_ARGUMENTS
   \<and> StreamIn.mDataMQ (fst (prepareForReading StreamIn_new 2 2 NORMAL (example_setup\<lparr>run_status := - 12\<rparr>))) = None
   \<and> mReadThread (fst (prepareForReading StreamIn_new 2 2 NORMAL (example_setup\<lparr>run_status := - 12\<rparr>))) \<noteq> None
   \<and> fst (snd (prepareForReading
        (fst (prepareForReading StreamIn_new 2 2 NORMAL (example_setup\<lparr>run_status := - 12\<rparr>)))
        2 2 NORMAL example_setup)) = OK"
  using failed_setup_leaves_no_session [where s = StreamIn_new and cs = "[]" and frameSize = 2
      and framesCount = 2 and threadPriority = NORMAL and env = "example_setup\<lparr>run_status := - 12\<rparr>"
      and frameSize' = 2 and framesCount' = 2 and threadPriority' = NORMAL and env' = example_setup]
  by (simp add: stream_example_defs)

end
